theory Spec2Isabelle
  imports Main "HOL-Library.Multiset"
begin

section \<open>Values at the HTTP and SQL boundaries\<close>

text \<open>
  The handlers of \<^verbatim>\<open>backend-server.js\<close> read fields of a JSON request body and pass
  them as parameters of SQL statements. A JSON value is \<open>json\<close> (numbers are taken to be
  integers; arrays and nested objects, which no handler inspects, are left out). A
  JavaScript variable obtained by destructuring the body is a \<open>jsval\<close>: \<open>None\<close> is
  \<^verbatim>\<open>undefined\<close>, the value of a field the body does not have.
\<close>

datatype json = JNull | JBool bool | JNum int | JStr string

type_synonym jsval = "json option"

type_synonym body = "string \<rightharpoonup> json"

text \<open>JavaScript truthiness, as used by \<^verbatim>\<open>priority || 'medium'\<close>.\<close>

fun truthy :: "jsval \<Rightarrow> bool" where
  "truthy None = False"
| "truthy (Some JNull) = False"
| "truthy (Some (JBool b)) = b"
| "truthy (Some (JNum n)) = (n \<noteq> 0)"
| "truthy (Some (JStr s)) = (s \<noteq> [])"

text \<open>\<^verbatim>\<open>v || d\<close> for a default \<open>d\<close> that is a literal.\<close>

definition js_or :: "jsval \<Rightarrow> json \<Rightarrow> json" where
  "js_or v d = (case v of None \<Rightarrow> d | Some x \<Rightarrow> if truthy (Some x) then x else d)"

text \<open>The database driver sends \<^verbatim>\<open>undefined\<close> as SQL NULL.\<close>

definition pg_param :: "jsval \<Rightarrow> json" where
  "pg_param v = (case v of None \<Rightarrow> JNull | Some x \<Rightarrow> x)"

text \<open>
  \<^verbatim>\<open>req.user\<close>: the payload of the verified token, as \<^verbatim>\<open>/api/auth/login\<close> signs it
  (\<^verbatim>\<open>{ userId, email, role }\<close>). Every handler below sits behind
  \<^verbatim>\<open>authenticateToken\<close> and so receives one.
\<close>

record user =
  userId :: int
  email :: string
  role :: string

text \<open>
  A response is a status code with a JSON payload (\<^verbatim>\<open>res.json(x)\<close> is status 200,
  \<^verbatim>\<open>res.status(c).json(x)\<close> is status \<open>c\<close>) or a status code with
  \<^verbatim>\<open>{ error: message }\<close>.
\<close>

datatype 'a response = Reply nat 'a | ErrorReply nat string

section \<open>The tables\<close>

text \<open>
  A row of \<^verbatim>\<open>tickets\<close>. The columns are those the statements of the source name
  (\<^verbatim>\<open>ticket_id\<close>, \<^verbatim>\<open>client_id\<close>, \<^verbatim>\<open>title\<close>, \<^verbatim>\<open>description\<close>, \<^verbatim>\<open>priority\<close>,
  \<^verbatim>\<open>category\<close>, \<^verbatim>\<open>status\<close>, \<^verbatim>\<open>assigned_to\<close>, \<^verbatim>\<open>resolution_notes\<close>,
  \<^verbatim>\<open>created_at\<close>, \<^verbatim>\<open>updated_at\<close>, \<^verbatim>\<open>closed_at\<close>). The table declaration is not part
  of the source; columns that receive request values hold a \<open>json\<close> (\<open>JNull\<close> is SQL
  NULL) and are stored as passed, without constraint, as the handlers perform no
  validation of their own. Timestamps are natural numbers (clock readings).
\<close>

record ticket =
  ticket_id :: int
  client_id :: int
  title :: json
  description :: json
  priority :: json
  category :: json
  status :: json
  assigned_to :: json
  resolution_notes :: json
  created_at :: nat
  updated_at :: nat
  closed_at :: "nat option"

text \<open>A row of \<^verbatim>\<open>comments\<close>.\<close>

record comment =
  comment_id :: int
  comment_ticket_id :: int
  user_id :: int
  comment_text :: json
  comment_created_at :: nat

text \<open>
  The database: \<^verbatim>\<open>users\<close> keyed by \<^verbatim>\<open>user_id\<close> and reduced to the one column the
  ticket and comment queries read (\<^verbatim>\<open>full_name\<close>), the two other tables as row lists in
  insertion order, and the two sequences that number new rows.
\<close>

record db =
  users :: "int \<rightharpoonup> json"
  tickets :: "ticket list"
  comments :: "comment list"
  ticket_seq :: int
  comment_seq :: int

text \<open>
  \<^verbatim>\<open>await pool.query(...)\<close> either yields the statement's result or throws an error
  with a message; the handler's \<^verbatim>\<open>catch\<close> turns that into status 500. The first
  argument is the failure of the connection pool during this request, if any
  (\<open>None\<close>: the database is reachable); a statement can also fail by itself.
\<close>

definition pool_query :: "string option \<Rightarrow> (db \<Rightarrow> string + 'a) \<Rightarrow> db \<Rightarrow> string + 'a" where
  "pool_query fault stmt d = (case fault of Some m \<Rightarrow> Inl m | None \<Rightarrow> stmt d)"

section \<open>Reading tickets\<close>

text \<open>
  A result row of the two ticket queries: \<^verbatim>\<open>t.*\<close> with the two joined names.
  \<^verbatim>\<open>LEFT JOIN users\<close> on the key \<^verbatim>\<open>user_id\<close> yields one row for each ticket, with
  NULL for a name that has no match.
\<close>

record ticket_row =
  row :: ticket
  client_name :: json
  assigned_to_name :: json

definition full_name_of :: "db \<Rightarrow> json \<Rightarrow> json" where
  "full_name_of d k =
     (case k of JNum n \<Rightarrow> (case users d n of None \<Rightarrow> JNull | Some nm \<Rightarrow> nm) | _ \<Rightarrow> JNull)"

definition join_users :: "db \<Rightarrow> ticket \<Rightarrow> ticket_row" where
  "join_users d t =
     \<lparr> row = t,
       client_name = full_name_of d (JNum (client_id t)),
       assigned_to_name = full_name_of d (assigned_to t) \<rparr>"

text \<open>
  \<^verbatim>\<open>ORDER BY t.created_at DESC\<close>. SQL leaves the order of rows with equal keys open;
  the model takes the reverse of a stable ascending sort.
\<close>

definition order_by_created_desc :: "ticket_row list \<Rightarrow> ticket_row list" where
  "order_by_created_desc rs = rev (sort_key (\<lambda>r. created_at (row r)) rs)"

text \<open>The two statements of \<^verbatim>\<open>GET /api/tickets\<close>.\<close>

definition select_tickets_of_client :: "int \<Rightarrow> db \<Rightarrow> string + ticket_row list" where
  "select_tickets_of_client uid d =
     Inr (order_by_created_desc
            (filter (\<lambda>r. client_id (row r) = uid) (map (join_users d) (tickets d))))"

definition select_all_tickets :: "db \<Rightarrow> string + ticket_row list" where
  "select_all_tickets d = Inr (order_by_created_desc (map (join_users d) (tickets d)))"

text \<open>\<^verbatim>\<open>app.get('/api/tickets', ...)\<close>\<close>

definition tickets_get :: "string option \<Rightarrow> user \<Rightarrow> db \<Rightarrow> ticket_row list response" where
  "tickets_get fault u d =
     (if role u = ''client'' then
        (case pool_query fault (select_tickets_of_client (userId u)) d of
           Inl m \<Rightarrow> ErrorReply 500 m
         | Inr rows \<Rightarrow> Reply 200 rows)
      else
        (case pool_query fault select_all_tickets d of
           Inl m \<Rightarrow> ErrorReply 500 m
         | Inr rows \<Rightarrow> Reply 200 rows))"

text \<open>
  \<^verbatim>\<open>app.get('/api/tickets/:id', ...)\<close>. The route parameter is taken as the integer it
  denotes. The statement has no condition on the caller.
\<close>

definition select_ticket_by_id :: "int \<Rightarrow> db \<Rightarrow> string + ticket_row list" where
  "select_ticket_by_id i d =
     Inr (filter (\<lambda>r. ticket_id (row r) = i) (map (join_users d) (tickets d)))"

definition ticket_get :: "string option \<Rightarrow> user \<Rightarrow> int \<Rightarrow> db \<Rightarrow> ticket_row response" where
  "ticket_get fault u i d =
     (case pool_query fault (select_ticket_by_id i) d of
        Inl m \<Rightarrow> ErrorReply 500 m
      | Inr rows \<Rightarrow>
          (case rows of
             [] \<Rightarrow> ErrorReply 404 ''Ticket not found''
           | r # _ \<Rightarrow> Reply 200 r))"

section \<open>Dashboard statistics\<close>

record stats =
  open_tickets :: nat
  in_progress_tickets :: nat
  closed_tickets :: nat
  total_tickets :: nat

text \<open>
  \<^verbatim>\<open>COUNT(*) FILTER (WHERE status = ...)\<close> over the tickets selected by the optional
  \<^verbatim>\<open>WHERE client_id = $1\<close>. An aggregate without grouping yields exactly one row
  (\<^verbatim>\<open>stats.rows[0]\<close>); the counts are kept as numbers.
\<close>

definition count_by_status :: "ticket list \<Rightarrow> stats" where
  "count_by_status ts =
     \<lparr> open_tickets = length (filter (\<lambda>t. status t = JStr ''open'') ts),
       in_progress_tickets = length (filter (\<lambda>t. status t = JStr ''in_progress'') ts),
       closed_tickets = length (filter (\<lambda>t. status t = JStr ''closed'') ts),
       total_tickets = length ts \<rparr>"

definition select_stats :: "bool \<Rightarrow> int \<Rightarrow> db \<Rightarrow> string + stats" where
  "select_stats scoped uid d =
     Inr (count_by_status
            (if scoped then filter (\<lambda>t. client_id t = uid) (tickets d) else tickets d))"

text \<open>\<^verbatim>\<open>app.get('/api/dashboard/stats', ...)\<close>\<close>

definition dashboard_stats :: "string option \<Rightarrow> user \<Rightarrow> db \<Rightarrow> stats response" where
  "dashboard_stats fault u d =
     (case pool_query fault (select_stats (role u = ''client'') (userId u)) d of
        Inl m \<Rightarrow> ErrorReply 500 m
      | Inr s \<Rightarrow> Reply 200 s)"

section \<open>Creating tickets\<close>

record ticket_defaults =
  default_ticket_id :: int
  default_status :: json
  default_assigned_to :: json
  default_resolution_notes :: json
  default_created_at :: nat
  default_updated_at :: nat
  default_closed_at :: "nat option"

text \<open>
  Modelled from the spec: the declaration of table \<^verbatim>\<open>tickets\<close> is missing from the
  source, and with it the defaults of the columns that the \<^verbatim>\<open>INSERT\<close> of
  \<^verbatim>\<open>POST /api/tickets\<close> does not name. The specification gives them: the identifier is
  generated by the server, \<open>status\<close> defaults to \<open>open\<close>, \<open>assignedTo\<close>,
  \<open>resolutionNotes\<close> and \<open>closedAt\<close> are null, \<open>createdAt\<close> and \<open>updatedAt\<close> are
  the time of creation.
\<close>

definition tickets_defaults :: "db \<Rightarrow> nat \<Rightarrow> ticket_defaults" where
  "tickets_defaults d now =
     \<lparr> default_ticket_id = ticket_seq d,
       default_status = JStr ''open'',
       default_assigned_to = JNull,
       default_resolution_notes = JNull,
       default_created_at = now,
       default_updated_at = now,
       default_closed_at = None \<rparr>"

text \<open>
  \<^verbatim>\<open>INSERT INTO tickets (client_id, title, description, priority, category)
  VALUES ($1, $2, $3, $4, $5) RETURNING *\<close>: one new row, which is also the row returned.
\<close>

definition insert_ticket ::
  "int \<Rightarrow> json \<Rightarrow> json \<Rightarrow> json \<Rightarrow> json \<Rightarrow> nat \<Rightarrow> db \<Rightarrow> string + (ticket \<times> db)" where
  "insert_ticket p1 p2 p3 p4 p5 now d =
     (let dflt = tickets_defaults d now;
          t = \<lparr> ticket_id = default_ticket_id dflt,
                client_id = p1,
                title = p2,
                description = p3,
                priority = p4,
                category = p5,
                status = default_status dflt,
                assigned_to = default_assigned_to dflt,
                resolution_notes = default_resolution_notes dflt,
                created_at = default_created_at dflt,
                updated_at = default_updated_at dflt,
                closed_at = default_closed_at dflt \<rparr>
      in Inr (t, d\<lparr>tickets := tickets d @ [t], ticket_seq := ticket_seq d + 1\<rparr>))"

text \<open>\<^verbatim>\<open>app.post('/api/tickets', ...)\<close>: the response and the database afterwards.\<close>

definition tickets_post ::
  "string option \<Rightarrow> user \<Rightarrow> body \<Rightarrow> nat \<Rightarrow> db \<Rightarrow> ticket response \<times> db" where
  "tickets_post fault u b now d =
     (case pool_query fault
             (insert_ticket (userId u) (pg_param (b ''title'')) (pg_param (b ''description''))
                (js_or (b ''priority'') (JStr ''medium''))
                (js_or (b ''category'') (JStr ''general'')) now) d of
        Inl m \<Rightarrow> (ErrorReply 500 m, d)
      | Inr (t, d') \<Rightarrow> (Reply 201 t, d'))"

section \<open>Updating tickets\<close>

text \<open>
  The handler of \<^verbatim>\<open>PUT /api/tickets/:id\<close> assembles the \<^verbatim>\<open>SET\<close> list of an
  \<^verbatim>\<open>UPDATE\<close> in the local variables \<^verbatim>\<open>fields\<close>, \<^verbatim>\<open>values\<close> and
  \<^verbatim>\<open>paramCount\<close>. An element of \<^verbatim>\<open>fields\<close> is \<^verbatim>\<open>column = $n\<close> or
  \<^verbatim>\<open>column = CURRENT_TIMESTAMP\<close>.
\<close>

datatype rhs = Param nat | CURRENT_TIMESTAMP

type_synonym assignment = "string \<times> rhs"

record put_vars =
  fields' :: "assignment list"
  values' :: "json list"
  paramCount :: nat

text \<open>
  \<^verbatim>\<open>if (v !== undefined) { fields.push(`col = $${paramCount++}`); values.push(v); }\<close>
\<close>

definition push_if_defined :: "string \<Rightarrow> jsval \<Rightarrow> put_vars \<Rightarrow> put_vars" where
  "push_if_defined col v s =
     (case v of
        None \<Rightarrow> s
      | Some x \<Rightarrow>
          s\<lparr>fields' := fields' s @ [(col, Param (paramCount s))],
            values' := values' s @ [x],
            paramCount := paramCount s + 1\<rparr>)"

text \<open>
  The assembly, from the two empty arrays to \<^verbatim>\<open>values.push(req.params.id)\<close>. As
  in the other routes, the route parameter is taken as the integer it denotes.
\<close>

definition build_update :: "body \<Rightarrow> int \<Rightarrow> put_vars" where
  "build_update b i =
     (let s0 = \<lparr> fields' = [], values' = [], paramCount = 1 \<rparr>;
          s1 = push_if_defined ''status'' (b ''status'') s0;
          s2 = push_if_defined ''priority'' (b ''priority'') s1;
          s3 = push_if_defined ''assigned_to'' (b ''assigned_to'') s2;
          s4 = push_if_defined ''resolution_notes'' (b ''resolution_notes'') s3;
          s5 = (if b ''status'' = Some (JStr ''closed'')
                then s4\<lparr>fields' := fields' s4 @ [(''closed_at'', CURRENT_TIMESTAMP)]\<rparr>
                else s4);
          s6 = s5\<lparr>fields' := fields' s5 @ [(''updated_at'', CURRENT_TIMESTAMP)]\<rparr>
      in s6\<lparr>values' := values' s6 @ [JNum i]\<rparr>)"

text \<open>
  Executing the statement. \<open>$n\<close> is the \<open>n\<close>-th element of \<^verbatim>\<open>values\<close>, counted from
  one; a parameter out of range, an unknown column and a value of the wrong kind for a
  column make the statement fail. The right-hand sides do not read the row, so applying
  the assignments one after the other is SQL's simultaneous assignment.
\<close>

datatype sqlval = Val json | Timestamp nat

definition param :: "json list \<Rightarrow> nat \<Rightarrow> json option" where
  "param vs n = (if 1 \<le> n \<and> n \<le> length vs then Some (vs ! (n - 1)) else None)"

fun eval_rhs :: "json list \<Rightarrow> nat \<Rightarrow> rhs \<Rightarrow> sqlval option" where
  "eval_rhs vs now (Param n) = map_option Val (param vs n)"
| "eval_rhs vs now CURRENT_TIMESTAMP = Some (Timestamp now)"

fun set_column :: "string \<Rightarrow> sqlval \<Rightarrow> ticket \<Rightarrow> ticket option" where
  "set_column col (Val v) t =
     (if col = ''status'' then Some (t\<lparr>status := v\<rparr>)
      else if col = ''priority'' then Some (t\<lparr>priority := v\<rparr>)
      else if col = ''assigned_to'' then Some (t\<lparr>assigned_to := v\<rparr>)
      else if col = ''resolution_notes'' then Some (t\<lparr>resolution_notes := v\<rparr>)
      else None)"
| "set_column col (Timestamp n) t =
     (if col = ''closed_at'' then Some (t\<lparr>closed_at := Some n\<rparr>)
      else if col = ''updated_at'' then Some (t\<lparr>updated_at := n\<rparr>)
      else None)"

fun apply_set :: "assignment list \<Rightarrow> json list \<Rightarrow> nat \<Rightarrow> ticket \<Rightarrow> ticket option" where
  "apply_set [] vs now t = Some t"
| "apply_set ((col, e) # as) vs now t =
     (case eval_rhs vs now e of
        None \<Rightarrow> None
      | Some v \<Rightarrow>
          (case set_column col v t of
             None \<Rightarrow> None
           | Some t' \<Rightarrow> apply_set as vs now t'))"

text \<open>
  The rows of the table after the update, and the rows \<^verbatim>\<open>RETURNING *\<close> yields (the
  updated ones): every row whose \<^verbatim>\<open>ticket_id\<close> equals the key is rewritten.
\<close>

fun update_rows ::
  "assignment list \<Rightarrow> json list \<Rightarrow> nat \<Rightarrow> json \<Rightarrow> ticket list \<Rightarrow> (ticket list \<times> ticket list) option" where
  "update_rows as vs now key [] = Some ([], [])"
| "update_rows as vs now key (t # ts) =
     (case update_rows as vs now key ts of
        None \<Rightarrow> None
      | Some (tab, ret) \<Rightarrow>
          if JNum (ticket_id t) = key then
            (case apply_set as vs now t of
               None \<Rightarrow> None
             | Some t' \<Rightarrow> Some (t' # tab, t' # ret))
          else Some (t # tab, ret))"

text \<open>
  \<^verbatim>\<open>UPDATE tickets SET ${fields.join(', ')} WHERE ticket_id = $${paramCount} RETURNING *\<close>
  with the parameters \<^verbatim>\<open>values\<close>. A failing statement changes nothing.
\<close>

definition update_tickets :: "put_vars \<Rightarrow> nat \<Rightarrow> db \<Rightarrow> string + (ticket list \<times> db)" where
  "update_tickets s now d =
     (case param (values' s) (paramCount s) of
        None \<Rightarrow> Inl ''there is no parameter''
      | Some key \<Rightarrow>
          (case update_rows (fields' s) (values' s) now key (tickets d) of
             None \<Rightarrow> Inl ''invalid assignment''
           | Some (tab, ret) \<Rightarrow> Inr (ret, d\<lparr>tickets := tab\<rparr>)))"

text \<open>
  \<^verbatim>\<open>app.put('/api/tickets/:id', ...)\<close>: the response and the database afterwards. The
  handler does not read \<^verbatim>\<open>req.user\<close>.
\<close>

definition tickets_put ::
  "string option \<Rightarrow> user \<Rightarrow> int \<Rightarrow> body \<Rightarrow> nat \<Rightarrow> db \<Rightarrow> ticket response \<times> db" where
  "tickets_put fault u i b now d =
     (case pool_query fault (update_tickets (build_update b i) now) d of
        Inl m \<Rightarrow> (ErrorReply 500 m, d)
      | Inr (rows, d') \<Rightarrow>
          (case rows of
             [] \<Rightarrow> (ErrorReply 404 ''Ticket not found'', d')
           | r # _ \<Rightarrow> (Reply 200 r, d')))"

text \<open>
  What the assembled statement does to one row, in closed form: the fields present in
  the body are overwritten, \<^verbatim>\<open>closed_at\<close> is stamped when the new status is
  \<^verbatim>\<open>'closed'\<close>, \<^verbatim>\<open>updated_at\<close> is stamped always. It is proved equal to the
  execution above (\<open>apply_set_build_update\<close>).
\<close>

definition patched :: "body \<Rightarrow> nat \<Rightarrow> ticket \<Rightarrow> ticket" where
  "patched b now t =
     t\<lparr>status := (case b ''status'' of None \<Rightarrow> status t | Some v \<Rightarrow> v),
       priority := (case b ''priority'' of None \<Rightarrow> priority t | Some v \<Rightarrow> v),
       assigned_to := (case b ''assigned_to'' of None \<Rightarrow> assigned_to t | Some v \<Rightarrow> v),
       resolution_notes :=
         (case b ''resolution_notes'' of None \<Rightarrow> resolution_notes t | Some v \<Rightarrow> v),
       closed_at := (if b ''status'' = Some (JStr ''closed'') then Some now else closed_at t),
       updated_at := now\<rparr>"

section \<open>Comments\<close>

record comment_row =
  crow :: comment
  author_name :: json

definition join_author :: "db \<Rightarrow> comment \<Rightarrow> comment_row" where
  "join_author d c = \<lparr> crow = c, author_name = full_name_of d (JNum (user_id c)) \<rparr>"

text \<open>
  \<^verbatim>\<open>SELECT c.*, u.full_name as author_name FROM comments c LEFT JOIN users u ...
  WHERE c.ticket_id = $1 ORDER BY c.created_at ASC\<close>. The statement reads table
  \<^verbatim>\<open>comments\<close> only; it does not look the ticket up.
\<close>

definition select_comments :: "int \<Rightarrow> db \<Rightarrow> string + comment_row list" where
  "select_comments i d =
     Inr (sort_key (\<lambda>r. comment_created_at (crow r))
            (filter (\<lambda>r. comment_ticket_id (crow r) = i) (map (join_author d) (comments d))))"

text \<open>\<^verbatim>\<open>app.get('/api/tickets/:id/comments', ...)\<close>\<close>

definition comments_get :: "string option \<Rightarrow> user \<Rightarrow> int \<Rightarrow> db \<Rightarrow> comment_row list response" where
  "comments_get fault u i d =
     (case pool_query fault (select_comments i) d of
        Inl m \<Rightarrow> ErrorReply 500 m
      | Inr rows \<Rightarrow> Reply 200 rows)"

text \<open>
  Modelled from the spec: the declaration of table \<^verbatim>\<open>comments\<close> is missing from the
  source; a new comment takes its identifier from the server and its \<open>createdAt\<close> from
  the time of insertion. The three other columns are the parameters of the
  \<^verbatim>\<open>INSERT\<close> of \<^verbatim>\<open>POST /api/tickets/:id/comments\<close>.
\<close>

definition insert_comment :: "int \<Rightarrow> int \<Rightarrow> json \<Rightarrow> nat \<Rightarrow> db \<Rightarrow> string + (comment \<times> db)" where
  "insert_comment p1 p2 p3 now d =
     (let c = \<lparr> comment_id = comment_seq d, comment_ticket_id = p1, user_id = p2,
                comment_text = p3, comment_created_at = now \<rparr>
      in Inr (c, d\<lparr>comments := comments d @ [c], comment_seq := comment_seq d + 1\<rparr>))"

text \<open>\<^verbatim>\<open>app.post('/api/tickets/:id/comments', ...)\<close>\<close>

definition comments_post ::
  "string option \<Rightarrow> user \<Rightarrow> int \<Rightarrow> body \<Rightarrow> nat \<Rightarrow> db \<Rightarrow> comment response \<times> db" where
  "comments_post fault u i b now d =
     (case pool_query fault (insert_comment i (userId u) (pg_param (b ''comment_text'')) now) d of
        Inl m \<Rightarrow> (ErrorReply 500 m, d)
      | Inr (c, d') \<Rightarrow> (Reply 201 c, d'))"

section \<open>Histories of requests\<close>

text \<open>
  The requests that write to the database. An event is a request together with the
  pool failure met while serving it (if any) and the clock reading
  \<^verbatim>\<open>CURRENT_TIMESTAMP\<close> at that moment. The read-only routes leave the database as it
  is and do not appear.
\<close>

datatype request =
    PostTicket user body
  | PutTicket user int body
  | PostComment user int body

type_synonym event = "string option \<times> nat \<times> request"

fun serve :: "event \<Rightarrow> db \<Rightarrow> db" where
  "serve (fault, now, PostTicket u b) d = snd (tickets_post fault u b now d)"
| "serve (fault, now, PutTicket u i b) d = snd (tickets_put fault u i b now d)"
| "serve (fault, now, PostComment u i b) d = snd (comments_post fault u i b now d)"

text \<open>The database after serving the events of a history, oldest first.\<close>

fun run :: "event list \<Rightarrow> db \<Rightarrow> db" where
  "run [] d = d"
| "run (e # es) d = run es (serve e d)"

section \<open>Example data\<close>

definition alice :: user where
  "alice = \<lparr> userId = 1, email = ''alice@example.org'', role = ''client'' \<rparr>"

definition bob :: user where
  "bob = \<lparr> userId = 2, email = ''bob@example.org'', role = ''client'' \<rparr>"

definition carol :: user where
  "carol = \<lparr> userId = 3, email = ''carol@example.org'', role = ''consultant'' \<rparr>"

definition ticket1 :: ticket where
  "ticket1 =
     \<lparr> ticket_id = 1, client_id = 1, title = JStr ''VPN down'',
       description = JStr ''cannot connect'', priority = JStr ''medium'',
       category = JStr ''general'', status = JStr ''open'', assigned_to = JNull,
       resolution_notes = JNull, created_at = 10, updated_at = 10, closed_at = None \<rparr>"

definition ticket2 :: ticket where
  "ticket2 =
     \<lparr> ticket_id = 2, client_id = 2, title = JStr ''Printer'',
       description = JStr ''paper jam'', priority = JStr ''low'',
       category = JStr ''hardware'', status = JStr ''closed'', assigned_to = JNum 3,
       resolution_notes = JStr ''fixed'', created_at = 20, updated_at = 30,
       closed_at = Some 30 \<rparr>"

definition db0 :: db where
  "db0 = \<lparr> users = Map.empty, tickets = [], comments = [], ticket_seq = 1, comment_seq = 1 \<rparr>"

definition db2 :: db where
  "db2 =
     \<lparr> users = [1 \<mapsto> JStr ''Alice'', 2 \<mapsto> JStr ''Bob'', 3 \<mapsto> JStr ''Carol''],
       tickets = [ticket1, ticket2], comments = [], ticket_seq = 3, comment_seq = 1 \<rparr>"

definition new_ticket_body :: body where
  "new_ticket_body = [''title'' \<mapsto> JStr ''Mail'', ''description'' \<mapsto> JStr ''bounces'']"

definition forged_body :: body where
  "forged_body =
     [''title'' \<mapsto> JStr ''Mail'', ''description'' \<mapsto> JStr ''bounces'',
      ''client_id'' \<mapsto> JNum 2, ''status'' \<mapsto> JStr ''closed'', ''closed_at'' \<mapsto> JNum 7]"

definition blank_body :: body where
  "blank_body = [''title'' \<mapsto> JStr [], ''description'' \<mapsto> JStr []]"

definition history1 :: "event list" where
  "history1 =
     [(None, 10, PostTicket alice new_ticket_body),
      (None, 20, PutTicket carol 1 [''status'' \<mapsto> JStr ''closed''])]"

definition comment1 :: comment where
  "comment1 =
     \<lparr> comment_id = 1, comment_ticket_id = 1, user_id = 3,
       comment_text = JStr ''looking into it'', comment_created_at = 12 \<rparr>"

definition comment2 :: comment where
  "comment2 =
     \<lparr> comment_id = 2, comment_ticket_id = 1, user_id = 1,
       comment_text = JStr ''thanks'', comment_created_at = 15 \<rparr>"

definition db3 :: db where
  "db3 = db2\<lparr>comments := [comment1, comment2], comment_seq := 3\<rparr>"

section \<open>Listing is scoped by role\<close>

lemma mset_rows_order_by_created_desc:
  "mset (map row (order_by_created_desc rs)) = mset (map row rs)"
  by (simp add: order_by_created_desc_def)

lemma row_join_users: "row (join_users d t) = t"
  by (simp add: join_users_def)

lemma map_row_join_users: "map row (map (join_users d) ts) = ts"
  by (induction ts) (simp_all add: row_join_users)

lemma filter_rows_of_client:
  "map row (filter (\<lambda>r. client_id (row r) = uid) (map (join_users d) ts))
     = filter (\<lambda>t. client_id t = uid) ts"
  by (induction ts) (simp_all add: row_join_users)

text \<open>
  C1. When the query succeeds, \<^verbatim>\<open>GET /api/tickets\<close> answers 200 with rows whose
  tickets are, as a multiset, all tickets of the table when the caller's role is not
  \<^verbatim>\<open>client\<close>, and exactly the tickets whose \<^verbatim>\<open>client_id\<close> is the caller's
  \<^verbatim>\<open>userId\<close> when it is.
\<close>

theorem tickets_get_scoped_by_role:
  "\<exists>rows. tickets_get None u d = Reply 200 rows \<and>
     (role u \<noteq> ''client'' \<longrightarrow> mset (map row rows) = mset (tickets d)) \<and>
     (role u = ''client'' \<longrightarrow>
        mset (map row rows) = filter_mset (\<lambda>t. client_id t = userId u) (mset (tickets d)))"
proof (cases "role u = ''client''")
  case True
  have "mset (map row (order_by_created_desc
            (filter (\<lambda>r. client_id (row r) = userId u) (map (join_users d) (tickets d)))))
          = mset (filter (\<lambda>t. client_id t = userId u) (tickets d))"
    by (simp only: mset_rows_order_by_created_desc filter_rows_of_client)
  with True show ?thesis
    by (simp add: tickets_get_def pool_query_def select_tickets_of_client_def)
next
  case False
  have "mset (map row (order_by_created_desc (map (join_users d) (tickets d))))
          = mset (tickets d)"
    by (simp only: mset_rows_order_by_created_desc map_row_join_users)
  with False show ?thesis
    by (simp add: tickets_get_def pool_query_def select_all_tickets_def)
qed

theorem tickets_get_scoped_by_role_witness:
  "tickets_get None alice db2 = Reply 200 [join_users db2 ticket1] \<and>
   tickets_get None carol db2 = Reply 200 [join_users db2 ticket2, join_users db2 ticket1]"
proof -
  have a: "tickets_get None alice db2 = Reply 200 [join_users db2 ticket1]"
    by (simp add: tickets_get_def pool_query_def select_tickets_of_client_def
        order_by_created_desc_def alice_def db2_def ticket1_def ticket2_def join_users_def)
  have c: "tickets_get None carol db2
             = Reply 200 [join_users db2 ticket2, join_users db2 ticket1]"
    by (simp add: tickets_get_def pool_query_def select_all_tickets_def
        order_by_created_desc_def carol_def db2_def ticket1_def ticket2_def join_users_def)
  from tickets_get_scoped_by_role [of alice db2] a c show ?thesis by simp
qed

section \<open>What the assembled update does\<close>

lemma build_update_key:
  "param (values' (build_update b i)) (paramCount (build_update b i)) = Some (JNum i)"
  by (cases "b ''status''"; cases "b ''priority''"; cases "b ''assigned_to''";
      cases "b ''resolution_notes''")
     (simp_all add: build_update_def push_if_defined_def param_def Let_def)

lemma apply_set_build_update:
  "apply_set (fields' (build_update b i)) (values' (build_update b i)) now t
     = Some (patched b now t)"
  by (cases "b ''status''"; cases "b ''priority''"; cases "b ''assigned_to''";
      cases "b ''resolution_notes''")
     (simp_all add: build_update_def push_if_defined_def param_def Let_def patched_def)

lemma update_rows_total:
  assumes "\<And>t. apply_set as vs now t = Some (f t)"
  shows "update_rows as vs now key ts
           = Some (map (\<lambda>t. if JNum (ticket_id t) = key then f t else t) ts,
                   map f (filter (\<lambda>t. JNum (ticket_id t) = key) ts))"
  by (induction ts) (simp_all add: assms)

lemma tickets_put_closed_form:
  "tickets_put None u i b now d =
     (case filter (\<lambda>t. ticket_id t = i) (tickets d) of
        [] \<Rightarrow> ErrorReply 404 ''Ticket not found''
      | t # _ \<Rightarrow> Reply 200 (patched b now t),
      d\<lparr>tickets := map (\<lambda>t. if ticket_id t = i then patched b now t else t) (tickets d)\<rparr>)"
  by (simp add: tickets_put_def pool_query_def update_tickets_def build_update_key
      update_rows_total [OF apply_set_build_update] split: list.splits)

lemma tickets_put_existing:
  assumes "t \<in> set (tickets d)" and "ticket_id t = i"
  shows "\<exists>x. x \<in> set (tickets d) \<and> ticket_id x = i \<and>
           tickets_put None u i b now d =
             (Reply 200 (patched b now x),
              d\<lparr>tickets := map (\<lambda>t. if ticket_id t = i then patched b now t else t) (tickets d)\<rparr>)"
proof -
  from assms have "filter (\<lambda>t. ticket_id t = i) (tickets d) \<noteq> []"
    by (auto simp: filter_empty_conv)
  then obtain x xs where f: "filter (\<lambda>t. ticket_id t = i) (tickets d) = x # xs"
    by (cases "filter (\<lambda>t. ticket_id t = i) (tickets d)") auto
  then have "x \<in> set (filter (\<lambda>t. ticket_id t = i) (tickets d))" by simp
  then have x: "x \<in> set (tickets d)" "ticket_id x = i" by auto
  have "tickets_put None u i b now d =
          (Reply 200 (patched b now x),
           d\<lparr>tickets := map (\<lambda>t. if ticket_id t = i then patched b now t else t) (tickets d)\<rparr>)"
    by (simp add: tickets_put_closed_form f)
  with x show ?thesis by blast
qed

lemma ticket_id_patched: "ticket_id (patched b now t) = ticket_id t"
  by (simp add: patched_def)





lemma closed_at_patched:
  "closed_at (patched b now t)
     = (if b ''status'' = Some (JStr ''closed'') then Some now else closed_at t)"
  by (simp add: patched_def)


section \<open>Writes are not gated by role\<close>





section \<open>Fetching one ticket has no owner scope\<close>

text \<open>
  C3. The claim asks that a client cannot fetch another client's ticket. The handler of
  \<^verbatim>\<open>GET /api/tickets/:id\<close> selects by \<^verbatim>\<open>ticket_id\<close> alone: Bob, a client, is
  answered with Alice's ticket 1.
\<close>

theorem ticket_get_foreign_ticket:
  "role bob = ''client'' \<and> client_id ticket1 \<noteq> userId bob \<and>
   ticket_get None bob 1 db2 = Reply 200 (join_users db2 ticket1)"
proof -
  have t: "tickets db2 = [ticket1, ticket2]" by (simp add: db2_def)
  have i: "ticket_id ticket1 = 1" "ticket_id ticket2 = 2"
    by (simp_all add: ticket1_def ticket2_def)
  have "ticket_get None bob 1 db2 = Reply 200 (join_users db2 ticket1)"
    by (simp add: ticket_get_def pool_query_def select_ticket_by_id_def t i row_join_users)
  moreover have "role bob = ''client''" "client_id ticket1 \<noteq> userId bob"
    by (simp_all add: bob_def ticket1_def)
  ultimately show ?thesis by simp
qed

section \<open>The dashboard counts what the list shows\<close>

lemma length_filter_rows:
  "length (filter (\<lambda>r. P (row r)) rs) = length (filter P (map row rs))"
  by (induction rs) simp_all

lemma count_by_status_rows:
  assumes "mset (map row rows) = mset ts"
  shows "count_by_status ts =
     \<lparr> open_tickets = length (filter (\<lambda>r. status (row r) = JStr ''open'') rows),
       in_progress_tickets = length (filter (\<lambda>r. status (row r) = JStr ''in_progress'') rows),
       closed_tickets = length (filter (\<lambda>r. status (row r) = JStr ''closed'') rows),
       total_tickets = length rows \<rparr>"
proof -
  have f: "length (filter (\<lambda>r. P (row r)) rows) = length (filter P ts)" for P
  proof -
    have "length (filter P (map row rows)) = size (filter_mset P (mset (map row rows)))"
      by (metis mset_filter size_mset)
    also have "\<dots> = length (filter P ts)"
      by (metis assms mset_filter size_mset)
    finally show ?thesis by (simp only: length_filter_rows)
  qed
  have l: "length rows = length ts"
    using assms by (metis length_map size_mset)
  show ?thesis
    by (simp only: count_by_status_def l f [of "\<lambda>t. status t = JStr ''open''"]
        f [of "\<lambda>t. status t = JStr ''in_progress''"]
        f [of "\<lambda>t. status t = JStr ''closed''"])
qed

text \<open>
  C4. For every caller, the four numbers of \<^verbatim>\<open>GET /api/dashboard/stats\<close> are the
  numbers of rows that \<^verbatim>\<open>GET /api/tickets\<close> returns to the same caller on the same
  database with status \<^verbatim>\<open>open\<close>, \<^verbatim>\<open>in_progress\<close> and \<^verbatim>\<open>closed\<close>, and the number
  of all rows returned.
\<close>

theorem dashboard_stats_counts_listed_tickets:
  "\<exists>rows. tickets_get None u d = Reply 200 rows \<and>
     dashboard_stats None u d =
       Reply 200
         \<lparr> open_tickets = length (filter (\<lambda>r. status (row r) = JStr ''open'') rows),
           in_progress_tickets =
             length (filter (\<lambda>r. status (row r) = JStr ''in_progress'') rows),
           closed_tickets = length (filter (\<lambda>r. status (row r) = JStr ''closed'') rows),
           total_tickets = length rows \<rparr>"
proof (cases "role u = ''client''")
  case True
  let ?rows = "order_by_created_desc
            (filter (\<lambda>r. client_id (row r) = userId u) (map (join_users d) (tickets d)))"
  have "mset (map row ?rows) = mset (filter (\<lambda>t. client_id t = userId u) (tickets d))"
    by (simp only: mset_rows_order_by_created_desc filter_rows_of_client)
  from count_by_status_rows [OF this] True show ?thesis
    by (simp add: tickets_get_def dashboard_stats_def pool_query_def
        select_tickets_of_client_def select_stats_def)
next
  case False
  let ?rows = "order_by_created_desc (map (join_users d) (tickets d))"
  have "mset (map row ?rows) = mset (tickets d)"
    by (simp only: mset_rows_order_by_created_desc map_row_join_users)
  from count_by_status_rows [OF this] False show ?thesis
    by (simp add: tickets_get_def dashboard_stats_def pool_query_def
        select_all_tickets_def select_stats_def)
qed

theorem dashboard_stats_counts_listed_tickets_witness:
  "dashboard_stats None alice db2 =
     Reply 200 \<lparr> open_tickets = 1, in_progress_tickets = 0, closed_tickets = 0,
                 total_tickets = 1 \<rparr>"
proof -
  have a: "tickets_get None alice db2 = Reply 200 [join_users db2 ticket1]"
    by (simp add: tickets_get_def pool_query_def select_tickets_of_client_def
        order_by_created_desc_def alice_def db2_def ticket1_def ticket2_def join_users_def)
  have s: "status ticket1 = JStr ''open''" by (simp add: ticket1_def)
  from dashboard_stats_counts_listed_tickets [of alice db2] a show ?thesis
    by (simp add: row_join_users s)
qed

section \<open>Closing and partial updates\<close>




lemma patched_priority_only:
  assumes "b ''priority'' = Some v" and "b ''status'' = None"
    and "b ''assigned_to'' = None" and "b ''resolution_notes'' = None"
  shows "patched b now t = t\<lparr>priority := v, updated_at := now\<rparr>"
  by (simp add: patched_def assms)

text \<open>
  C7. A body that carries \<^verbatim>\<open>priority\<close> and none of \<^verbatim>\<open>status\<close>, \<^verbatim>\<open>assigned_to\<close>,
  \<^verbatim>\<open>resolution_notes\<close>, sent for an existing ticket, is answered 200 with the ticket
  changed in \<^verbatim>\<open>priority\<close> and \<^verbatim>\<open>updated_at\<close> only; in the database the rows with the
  identifier change in these two columns only, and nothing else changes.
\<close>

theorem priority_only_patch_frame:
  assumes "b ''priority'' = Some v" and "b ''status'' = None"
    and "b ''assigned_to'' = None" and "b ''resolution_notes'' = None"
    and "t \<in> set (tickets d)" and "ticket_id t = i"
  shows "\<exists>x \<in> set (tickets d). ticket_id x = i \<and>
           tickets_put None u i b now d =
             (Reply 200 (x\<lparr>priority := v, updated_at := now\<rparr>),
              d\<lparr>tickets :=
                  map (\<lambda>y. if ticket_id y = i then y\<lparr>priority := v, updated_at := now\<rparr> else y)
                    (tickets d)\<rparr>)"
proof -
  have p: "patched b now z = z\<lparr>priority := v, updated_at := now\<rparr>" for z
    by (rule patched_priority_only [of b v, OF assms(1-4)])
  from tickets_put_existing [OF assms(5,6), of u b now] show ?thesis
    by (simp only: p) blast
qed

theorem priority_only_patch_frame_witness:
  "tickets_put None carol 1 [''priority'' \<mapsto> JStr ''high''] 40 db2 =
     (Reply 200 (ticket1\<lparr>priority := JStr ''high'', updated_at := 40\<rparr>),
      db2\<lparr>tickets := [ticket1\<lparr>priority := JStr ''high'', updated_at := 40\<rparr>, ticket2]\<rparr>)"
proof -
  let ?b = "[''priority'' \<mapsto> JStr ''high'']"
  have h: "?b ''priority'' = Some (JStr ''high'')" "?b ''status'' = None"
    "?b ''assigned_to'' = None" "?b ''resolution_notes'' = None"
    by simp_all
  have h5: "ticket1 \<in> set (tickets db2)" by (simp add: db2_def)
  have h6: "ticket_id ticket1 = 1" by (simp add: ticket1_def)
  have t: "tickets db2 = [ticket1, ticket2]" by (simp add: db2_def)
  have i: "ticket_id ticket2 = 2" by (simp add: ticket2_def)
  from priority_only_patch_frame [where b = ?b and u = carol and now = 40, OF h h5 h6] show ?thesis
    by (simp add: t h6 i)
qed

section \<open>Where a closing time can come from\<close>

lemma tickets_after_put:
  "tickets (snd (tickets_put fault u i b now d)) =
     (case fault of
        None \<Rightarrow> map (\<lambda>t. if ticket_id t = i then patched b now t else t) (tickets d)
      | Some m \<Rightarrow> tickets d)"
proof (cases fault)
  case None
  then show ?thesis by (simp add: tickets_put_closed_form)
next
  case (Some m)
  then show ?thesis by (simp add: tickets_put_def pool_query_def)
qed

lemma insert_ticket_result:
  "\<exists>t. insert_ticket p1 p2 p3 p4 p5 now d =
          Inr (t, d\<lparr>tickets := tickets d @ [t], ticket_seq := ticket_seq d + 1\<rparr>) \<and>
        ticket_id t = ticket_seq d \<and> client_id t = p1 \<and> title t = p2 \<and>
        description t = p3 \<and> priority t = p4 \<and> category t = p5 \<and>
        status t = JStr ''open'' \<and> assigned_to t = JNull \<and> resolution_notes t = JNull \<and>
        created_at t = now \<and> updated_at t = now \<and> closed_at t = None"
  by (simp add: insert_ticket_def tickets_defaults_def Let_def)

lemma tickets_after_post:
  "tickets (snd (tickets_post fault u b now d)) = tickets d \<or>
   (\<exists>t. closed_at t = None \<and>
         tickets (snd (tickets_post fault u b now d)) = tickets d @ [t])"
proof (cases fault)
  case (Some m)
  then show ?thesis by (simp add: tickets_post_def pool_query_def)
next
  case None
  from insert_ticket_result
    [of "userId u" "pg_param (b ''title'')" "pg_param (b ''description'')"
        "js_or (b ''priority'') (JStr ''medium'')" "js_or (b ''category'') (JStr ''general'')"
        now d]
  obtain t where
    "insert_ticket (userId u) (pg_param (b ''title'')) (pg_param (b ''description''))
       (js_or (b ''priority'') (JStr ''medium'')) (js_or (b ''category'') (JStr ''general''))
       now d = Inr (t, d\<lparr>tickets := tickets d @ [t], ticket_seq := ticket_seq d + 1\<rparr>)"
    and "closed_at t = None"
    by blast
  with None show ?thesis by (simp add: tickets_post_def pool_query_def)
qed

lemma tickets_after_comment:
  "tickets (snd (comments_post fault u i b now d)) = tickets d"
  by (cases fault) (simp_all add: comments_post_def pool_query_def insert_comment_def Let_def)

lemma closed_at_after_serve:
  assumes "t \<in> set (tickets (serve e d))" and "closed_at t = Some n"
  shows "(\<exists>t0 \<in> set (tickets d). ticket_id t0 = ticket_id t \<and> closed_at t0 = Some n) \<or>
         (\<exists>u b. e = (None, n, PutTicket u (ticket_id t) b) \<and>
                 b ''status'' = Some (JStr ''closed''))"
proof -
  obtain fault now r where e: "e = (fault, now, r)" by (cases e)
  show ?thesis
  proof (cases r)
    case (PostTicket u b)
    from assms(1) have t: "t \<in> set (tickets (snd (tickets_post fault u b now d)))"
      by (simp add: e PostTicket)
    from tickets_after_post [of fault u b now d] t assms(2)
    have "t \<in> set (tickets d)" by auto
    with assms(2) show ?thesis by blast
  next
    case (PutTicket u i b)
    show ?thesis
    proof (cases fault)
      case (Some m)
      with assms(1) have "t \<in> set (tickets d)"
        by (simp add: e PutTicket tickets_after_put)
      with assms(2) show ?thesis by blast
    next
      case None
      with assms(1) have
        "t \<in> set (map (\<lambda>t. if ticket_id t = i then patched b now t else t) (tickets d))"
        by (simp only: e PutTicket serve.simps tickets_after_put option.case)
      then obtain t0 where t0: "t0 \<in> set (tickets d)"
        and t: "t = (if ticket_id t0 = i then patched b now t0 else t0)" by auto
      show ?thesis
      proof (cases "ticket_id t0 = i")
        case False
        with t t0 assms(2) show ?thesis by auto
      next
        case True
        with t have tp: "t = patched b now t0" by simp
        then have id: "ticket_id t = i" by (simp add: ticket_id_patched True)
        show ?thesis
        proof (cases "b ''status'' = Some (JStr ''closed'')")
          case True
          with tp assms(2) have "n = now" by (simp add: closed_at_patched)
          with True id e PutTicket None show ?thesis by simp
        next
          case False
          with tp assms(2) have "closed_at t0 = Some n" by (simp add: closed_at_patched)
          with t0 id \<open>ticket_id t0 = i\<close> show ?thesis by auto
        qed
      qed
    qed
  next
    case (PostComment u i b)
    with assms(1) have "t \<in> set (tickets d)"
      by (simp add: e tickets_after_comment)
    with assms(2) show ?thesis by blast
  qed
qed

lemma closed_at_after_run:
  assumes "t \<in> set (tickets (run evs d))" and "closed_at t = Some n"
  shows "(\<exists>t0 \<in> set (tickets d). ticket_id t0 = ticket_id t \<and> closed_at t0 = Some n) \<or>
         (\<exists>u b. (None, n, PutTicket u (ticket_id t) b) \<in> set evs \<and>
                 b ''status'' = Some (JStr ''closed''))"
  using assms
proof (induction evs arbitrary: d)
  case Nil
  then show ?case by auto
next
  case (Cons e es)
  from Cons.prems have "t \<in> set (tickets (run es (serve e d)))" by simp
  from Cons.IH [OF this Cons.prems(2)] show ?case
  proof
    assume "\<exists>t0 \<in> set (tickets (serve e d)). ticket_id t0 = ticket_id t \<and> closed_at t0 = Some n"
    then obtain t0 where t0: "t0 \<in> set (tickets (serve e d))"
      and id: "ticket_id t0 = ticket_id t" and c: "closed_at t0 = Some n" by blast
    from closed_at_after_serve [OF t0 c] show ?thesis
      unfolding id by auto
  next
    assume "\<exists>u b. (None, n, PutTicket u (ticket_id t) b) \<in> set es \<and>
                 b ''status'' = Some (JStr ''closed'')"
    then show ?thesis by auto
  qed
qed

text \<open>
  C6. Start from a database in which no ticket has a closing time and serve any history
  of writing requests (ticket creations, ticket updates, comment creations, with or
  without pool failures). Whenever a ticket then has \<^verbatim>\<open>closed_at\<close> equal to some time
  \<open>n\<close>, the history contains an update of that very ticket, served without failure at
  time \<open>n\<close>, whose body sets \<^verbatim>\<open>status\<close> to \<^verbatim>\<open>'closed'\<close>.
\<close>

theorem closed_at_only_from_closing_update:
  assumes "\<forall>t \<in> set (tickets d0). closed_at t = None"
    and "t \<in> set (tickets (run evs d0))" and "closed_at t = Some n"
  shows "\<exists>u b. (None, n, PutTicket u (ticket_id t) b) \<in> set evs \<and>
               b ''status'' = Some (JStr ''closed'')"
proof -
  from closed_at_after_run [OF assms(2,3)] show ?thesis
  proof
    assume "\<exists>t0 \<in> set (tickets d0). ticket_id t0 = ticket_id t \<and> closed_at t0 = Some n"
    with assms(1) show ?thesis by auto
  qed
qed

theorem closed_at_only_from_closing_update_witness:
  "tickets (run history1 db0) =
     [\<lparr> ticket_id = 1, client_id = 1, title = JStr ''Mail'', description = JStr ''bounces'',
        priority = JStr ''medium'', category = JStr ''general'', status = JStr ''closed'',
        assigned_to = JNull, resolution_notes = JNull, created_at = 10, updated_at = 20,
        closed_at = Some 20 \<rparr>] \<and>
   (\<exists>u b. (None, 20, PutTicket u 1 b) \<in> set history1 \<and> b ''status'' = Some (JStr ''closed''))"
proof -
  let ?t = "\<lparr> ticket_id = 1, client_id = 1, title = JStr ''Mail'',
        description = JStr ''bounces'', priority = JStr ''medium'',
        category = JStr ''general'', status = JStr ''closed'', assigned_to = JNull,
        resolution_notes = JNull, created_at = 10, updated_at = 20,
        closed_at = Some 20 \<rparr>"
  have r: "tickets (run history1 db0) = [?t]"
    by (simp add: history1_def db0_def alice_def new_ticket_body_def tickets_post_def
        pool_query_def insert_ticket_def tickets_defaults_def Let_def pg_param_def js_or_def
        tickets_put_closed_form patched_def)
  have h1: "\<forall>t \<in> set (tickets db0). closed_at t = None" by (simp add: db0_def)
  have h2: "?t \<in> set (tickets (run history1 db0))" by (simp only: r list.set_intros)
  have h3: "closed_at ?t = Some 20" by simp
  from closed_at_only_from_closing_update [OF h1 h2 h3] r show ?thesis by simp
qed

section \<open>Creation\<close>

lemma tickets_post_result:
  "\<exists>t. tickets_post None u b now d =
          (Reply 201 t, d\<lparr>tickets := tickets d @ [t], ticket_seq := ticket_seq d + 1\<rparr>) \<and>
        ticket_id t = ticket_seq d \<and> client_id t = userId u \<and>
        title t = pg_param (b ''title'') \<and> description t = pg_param (b ''description'') \<and>
        priority t = js_or (b ''priority'') (JStr ''medium'') \<and>
        category t = js_or (b ''category'') (JStr ''general'') \<and>
        status t = JStr ''open'' \<and> assigned_to t = JNull \<and> resolution_notes t = JNull \<and>
        created_at t = now \<and> updated_at t = now \<and> closed_at t = None"
proof -
  from insert_ticket_result
    [of "userId u" "pg_param (b ''title'')" "pg_param (b ''description'')"
        "js_or (b ''priority'') (JStr ''medium'')" "js_or (b ''category'') (JStr ''general'')"
        now d]
  obtain t where
    i: "insert_ticket (userId u) (pg_param (b ''title'')) (pg_param (b ''description''))
       (js_or (b ''priority'') (JStr ''medium'')) (js_or (b ''category'') (JStr ''general''))
       now d = Inr (t, d\<lparr>tickets := tickets d @ [t], ticket_seq := ticket_seq d + 1\<rparr>)"
    and f: "ticket_id t = ticket_seq d" "client_id t = userId u"
      "title t = pg_param (b ''title'')" "description t = pg_param (b ''description'')"
      "priority t = js_or (b ''priority'') (JStr ''medium'')"
      "category t = js_or (b ''category'') (JStr ''general'')"
      "status t = JStr ''open''" "assigned_to t = JNull" "resolution_notes t = JNull"
      "created_at t = now" "updated_at t = now" "closed_at t = None"
    by blast
  have "tickets_post None u b now d =
          (Reply 201 t, d\<lparr>tickets := tickets d @ [t], ticket_seq := ticket_seq d + 1\<rparr>)"
    by (simp add: tickets_post_def pool_query_def i)
  with f show ?thesis by blast
qed

lemma tickets_post_reads_four_fields:
  assumes "b' ''title'' = b ''title''" and "b' ''description'' = b ''description''"
    and "b' ''priority'' = b ''priority''" and "b' ''category'' = b ''category''"
  shows "tickets_post fault u b' now d = tickets_post fault u b now d"
  by (simp add: tickets_post_def assms)

text \<open>
  C8 (as amended). The handler of \<^verbatim>\<open>POST /api/tickets\<close> validates nothing: whenever
  the body's \<^verbatim>\<open>title\<close> and \<^verbatim>\<open>description\<close> are strings, empty or not, and the query
  succeeds, the answer is 201 and the table gains one ticket carrying that title and
  that description.
\<close>

theorem tickets_post_accepts_any_strings:
  assumes "b ''title'' = Some (JStr ttl)" and "b ''description'' = Some (JStr dsc)"
  shows "\<exists>t. tickets_post None u b now d =
               (Reply 201 t, d\<lparr>tickets := tickets d @ [t], ticket_seq := ticket_seq d + 1\<rparr>) \<and>
             title t = JStr ttl \<and> description t = JStr dsc"
proof -
  from tickets_post_result [of u b now d] obtain t where
    "tickets_post None u b now d =
       (Reply 201 t, d\<lparr>tickets := tickets d @ [t], ticket_seq := ticket_seq d + 1\<rparr>)"
    and "title t = pg_param (b ''title'')" and "description t = pg_param (b ''description'')"
    by blast
  with assms show ?thesis by (simp add: pg_param_def)
qed

theorem tickets_post_accepts_any_strings_witness:
  "\<exists>t. tickets_post None bob [''title'' \<mapsto> JStr [], ''description'' \<mapsto> JStr ''x''] 7 db2 =
          (Reply 201 t, db2\<lparr>tickets := tickets db2 @ [t], ticket_seq := ticket_seq db2 + 1\<rparr>) \<and>
        title t = JStr [] \<and> description t = JStr ''x''"
proof -
  let ?b = "[''title'' \<mapsto> JStr [], ''description'' \<mapsto> JStr ''x'']"
  have h1: "?b ''title'' = Some (JStr [])" by simp
  have h2: "?b ''description'' = Some (JStr ''x'')" by simp
  from tickets_post_accepts_any_strings
    [where b = ?b and u = bob and now = 7 and d = db2, OF h1 h2]
  show ?thesis .
qed

text \<open>
  The claim C8 as stated fails: a body with empty title and empty description creates a
  ticket.
\<close>

theorem empty_title_counterexample:
  "blank_body ''title'' = Some (JStr []) \<and> blank_body ''description'' = Some (JStr []) \<and>
   tickets_post None alice blank_body 5 db0 =
     (Reply 201
        \<lparr> ticket_id = 1, client_id = 1, title = JStr [], description = JStr [],
          priority = JStr ''medium'', category = JStr ''general'', status = JStr ''open'',
          assigned_to = JNull, resolution_notes = JNull, created_at = 5, updated_at = 5,
          closed_at = None \<rparr>,
      db0\<lparr>tickets :=
            [\<lparr> ticket_id = 1, client_id = 1, title = JStr [], description = JStr [],
               priority = JStr ''medium'', category = JStr ''general'',
               status = JStr ''open'', assigned_to = JNull, resolution_notes = JNull,
               created_at = 5, updated_at = 5, closed_at = None \<rparr>],
          ticket_seq := 2\<rparr>)"
  by (simp add: blank_body_def tickets_post_def pool_query_def insert_ticket_def
      tickets_defaults_def Let_def pg_param_def js_or_def alice_def db0_def)

text \<open>
  C10. When the query succeeds, a creation answers 201 with a new ticket whose
  \<^verbatim>\<open>client_id\<close> is the caller's \<^verbatim>\<open>userId\<close>, whose \<^verbatim>\<open>status\<close> is \<^verbatim>\<open>open\<close> and
  whose \<^verbatim>\<open>closed_at\<close> is NULL; and the outcome is the same for any other body with the
  same \<^verbatim>\<open>title\<close>, \<^verbatim>\<open>description\<close>, \<^verbatim>\<open>priority\<close> and \<^verbatim>\<open>category\<close>, whatever else
  it carries.
\<close>

theorem tickets_post_owner_is_caller:
  "\<exists>t. tickets_post None u b now d =
          (Reply 201 t, d\<lparr>tickets := tickets d @ [t], ticket_seq := ticket_seq d + 1\<rparr>) \<and>
        client_id t = userId u \<and> status t = JStr ''open'' \<and> closed_at t = None \<and>
        (\<forall>b'. b' ''title'' = b ''title'' \<and> b' ''description'' = b ''description'' \<and>
              b' ''priority'' = b ''priority'' \<and> b' ''category'' = b ''category'' \<longrightarrow>
              tickets_post None u b' now d = tickets_post None u b now d)"
proof -
  from tickets_post_result [of u b now d] obtain t where
    p: "tickets_post None u b now d =
       (Reply 201 t, d\<lparr>tickets := tickets d @ [t], ticket_seq := ticket_seq d + 1\<rparr>)"
    and c: "client_id t = userId u" "status t = JStr ''open''" "closed_at t = None"
    by blast
  have ind:
    "\<forall>b'. b' ''title'' = b ''title'' \<and> b' ''description'' = b ''description'' \<and>
          b' ''priority'' = b ''priority'' \<and> b' ''category'' = b ''category'' \<longrightarrow>
          tickets_post None u b' now d = tickets_post None u b now d"
  proof (intro allI impI)
    fix b' :: body
    assume "b' ''title'' = b ''title'' \<and> b' ''description'' = b ''description'' \<and>
          b' ''priority'' = b ''priority'' \<and> b' ''category'' = b ''category''"
    then show "tickets_post None u b' now d = tickets_post None u b now d"
      by (intro tickets_post_reads_four_fields) simp_all
  qed
  from p c ind show ?thesis by (intro exI [of _ t] conjI)
qed

theorem tickets_post_owner_is_caller_witness:
  "forged_body ''client_id'' = Some (JNum 2) \<and>
   forged_body ''status'' = Some (JStr ''closed'') \<and>
   forged_body ''closed_at'' = Some (JNum 7) \<and>
   tickets_post None alice forged_body 10 db0 = tickets_post None alice new_ticket_body 10 db0 \<and>
   tickets_post None alice forged_body 10 db0 =
     (Reply 201
        \<lparr> ticket_id = 1, client_id = 1, title = JStr ''Mail'', description = JStr ''bounces'',
          priority = JStr ''medium'', category = JStr ''general'', status = JStr ''open'',
          assigned_to = JNull, resolution_notes = JNull, created_at = 10, updated_at = 10,
          closed_at = None \<rparr>,
      db0\<lparr>tickets :=
            [\<lparr> ticket_id = 1, client_id = 1, title = JStr ''Mail'',
               description = JStr ''bounces'', priority = JStr ''medium'',
               category = JStr ''general'', status = JStr ''open'', assigned_to = JNull,
               resolution_notes = JNull, created_at = 10, updated_at = 10,
               closed_at = None \<rparr>],
          ticket_seq := 2\<rparr>)"
proof -
  have same: "forged_body ''title'' = new_ticket_body ''title'' \<and>
      forged_body ''description'' = new_ticket_body ''description'' \<and>
      forged_body ''priority'' = new_ticket_body ''priority'' \<and>
      forged_body ''category'' = new_ticket_body ''category''"
    by (simp add: forged_body_def new_ticket_body_def)
  from tickets_post_owner_is_caller [of alice new_ticket_body 10 db0] obtain t where
    ind: "\<forall>b'. b' ''title'' = new_ticket_body ''title'' \<and>
          b' ''description'' = new_ticket_body ''description'' \<and>
          b' ''priority'' = new_ticket_body ''priority'' \<and>
          b' ''category'' = new_ticket_body ''category'' \<longrightarrow>
          tickets_post None alice b' 10 db0 = tickets_post None alice new_ticket_body 10 db0"
    by (elim exE conjE)
  from ind have
    "forged_body ''title'' = new_ticket_body ''title'' \<and>
      forged_body ''description'' = new_ticket_body ''description'' \<and>
      forged_body ''priority'' = new_ticket_body ''priority'' \<and>
      forged_body ''category'' = new_ticket_body ''category'' \<longrightarrow>
     tickets_post None alice forged_body 10 db0
       = tickets_post None alice new_ticket_body 10 db0"
    by (rule spec)
  from this same have eq: "tickets_post None alice forged_body 10 db0
              = tickets_post None alice new_ticket_body 10 db0"
    by (rule mp)
  have v: "tickets_post None alice new_ticket_body 10 db0 =
     (Reply 201
        \<lparr> ticket_id = 1, client_id = 1, title = JStr ''Mail'', description = JStr ''bounces'',
          priority = JStr ''medium'', category = JStr ''general'', status = JStr ''open'',
          assigned_to = JNull, resolution_notes = JNull, created_at = 10, updated_at = 10,
          closed_at = None \<rparr>,
      db0\<lparr>tickets :=
            [\<lparr> ticket_id = 1, client_id = 1, title = JStr ''Mail'',
               description = JStr ''bounces'', priority = JStr ''medium'',
               category = JStr ''general'', status = JStr ''open'', assigned_to = JNull,
               resolution_notes = JNull, created_at = 10, updated_at = 10,
               closed_at = None \<rparr>],
          ticket_seq := 2\<rparr>)"
    by (simp add: new_ticket_body_def tickets_post_def pool_query_def insert_ticket_def
        tickets_defaults_def Let_def pg_param_def js_or_def alice_def db0_def)
  have f: "forged_body ''client_id'' = Some (JNum 2)"
    "forged_body ''status'' = Some (JStr ''closed'')"
    "forged_body ''closed_at'' = Some (JNum 7)"
    by (simp_all add: forged_body_def)
  from eq v have v': "tickets_post None alice forged_body 10 db0 =
     (Reply 201
        \<lparr> ticket_id = 1, client_id = 1, title = JStr ''Mail'', description = JStr ''bounces'',
          priority = JStr ''medium'', category = JStr ''general'', status = JStr ''open'',
          assigned_to = JNull, resolution_notes = JNull, created_at = 10, updated_at = 10,
          closed_at = None \<rparr>,
      db0\<lparr>tickets :=
            [\<lparr> ticket_id = 1, client_id = 1, title = JStr ''Mail'',
               description = JStr ''bounces'', priority = JStr ''medium'',
               category = JStr ''general'', status = JStr ''open'', assigned_to = JNull,
               resolution_notes = JNull, created_at = 10, updated_at = 10,
               closed_at = None \<rparr>],
          ticket_seq := 2\<rparr>)"
    by (rule trans)
  from f eq v' show ?thesis by (intro conjI)
qed

section \<open>Listing comments\<close>

lemma crow_join_author: "crow (join_author d c) = c"
  by (simp add: join_author_def)

lemma filter_comment_rows:
  "map crow (filter (\<lambda>r. comment_ticket_id (crow r) = i) (map (join_author d) cs))
     = filter (\<lambda>c. comment_ticket_id c = i) cs"
  by (induction cs) (simp_all add: crow_join_author)

lemma comments_get_rows:
  "comments_get None u i d =
     Reply 200 (sort_key (\<lambda>r. comment_created_at (crow r))
       (filter (\<lambda>r. comment_ticket_id (crow r) = i) (map (join_author d) (comments d))))"
  by (simp add: comments_get_def pool_query_def select_comments_def)

text \<open>
  C9 (as amended). For every identifier, whether a ticket has it or not, listing its
  comments answers 200 when the query succeeds, with exactly the comments stored under
  that identifier, oldest first; when no comment refers to the identifier the list is
  empty. The answer is never 404.
\<close>

theorem comments_get_never_not_found:
  "\<exists>rows. comments_get None u i d = Reply 200 rows \<and>
     mset (map crow rows) = filter_mset (\<lambda>c. comment_ticket_id c = i) (mset (comments d)) \<and>
     sorted (map (\<lambda>r. comment_created_at (crow r)) rows) \<and>
     (i \<notin> comment_ticket_id ` set (comments d) \<longrightarrow> rows = [])"
proof -
  let ?sel = "filter (\<lambda>r. comment_ticket_id (crow r) = i) (map (join_author d) (comments d))"
  let ?rows = "sort_key (\<lambda>r. comment_created_at (crow r)) ?sel"
  have "mset (map crow ?rows) = mset (map crow ?sel)" by simp
  also have "\<dots> = mset (filter (\<lambda>c. comment_ticket_id c = i) (comments d))"
    by (simp only: filter_comment_rows)
  finally have m: "mset (map crow ?rows)
      = filter_mset (\<lambda>c. comment_ticket_id c = i) (mset (comments d))"
    by simp
  have s: "sorted (map (\<lambda>r. comment_created_at (crow r)) ?rows)"
    by (rule sorted_sort_key)
  have e: "i \<notin> comment_ticket_id ` set (comments d) \<longrightarrow> ?rows = []"
  proof
    assume "i \<notin> comment_ticket_id ` set (comments d)"
    then have "filter (\<lambda>c. comment_ticket_id c = i) (comments d) = []"
      by (auto simp: filter_empty_conv)
    then have "map crow ?sel = []" by (simp only: filter_comment_rows)
    then have "?sel = []" by simp
    then show "?rows = []" by simp
  qed
  from comments_get_rows [of u i d] m s e show ?thesis by (intro exI [of _ ?rows] conjI)
qed

theorem comments_get_never_not_found_witness:
  "comments_get None carol 3 db3 = Reply 200 []"
proof -
  have "(3::int) \<notin> comment_ticket_id ` set (comments db3)"
    by (simp add: db3_def comment1_def comment2_def)
  with comments_get_never_not_found [of carol 3 db3] show ?thesis by auto
qed

text \<open>
  The claim C9 as stated fails: no ticket has identifier 7, and the listing answers 200
  with the empty list.
\<close>

theorem comments_of_missing_ticket_counterexample:
  "map ticket_id (tickets db3) = [1, 2] \<and> comments_get None alice 7 db3 = Reply 200 []"
  by (simp add: comments_get_rows db3_def db2_def ticket1_def ticket2_def comment1_def
      comment2_def join_author_def)

end
